theory Spec2Isabelle
  imports Main "HOL-Library.AList"
begin

section \<open>Python values used by phase2_curation.py\<close>

text \<open>
  A Python \<open>str\<close> is modelled as a \<open>string\<close>, each \<open>char\<close> read as the code point
  of the same number (U+0000 to U+00FF). On this range \<open>str.lower\<close> keeps the length,
  so the model is exact for every text made of these code points; texts with code points
  above U+00FF are outside the model. Python's unbounded \<open>int\<close> is \<open>int\<close>.

  Exceptions are values: a function that can raise returns \<open>py_error + 'a\<close>.
\<close>

datatype py_error = EOFError | IndexError | ValueError

text \<open>The characters for which \<open>str.isspace\<close> holds; \<open>str.strip()\<close> removes them.\<close>

definition py_isspace :: "char \<Rightarrow> bool" where
  "py_isspace c =
     (let n = (of_char c :: nat)
      in (9 \<le> n \<and> n \<le> 13) \<or> (28 \<le> n \<and> n \<le> 32) \<or> n = 133 \<or> n = 160)"

definition py_strip :: "string \<Rightarrow> string" where
  "py_strip s = rev (dropWhile py_isspace (rev (dropWhile py_isspace s)))"

text \<open>\<open>str.lower\<close>: A to Z and the capital letters of U+00C0 to U+00DE (not the
  multiplication sign U+00D7) move up by 32.\<close>

definition py_lower_char :: "char \<Rightarrow> char" where
  "py_lower_char c =
     (let n = (of_char c :: nat)
      in if (65 \<le> n \<and> n \<le> 90) \<or> (192 \<le> n \<and> n \<le> 222 \<and> n \<noteq> 215)
         then char_of (n + 32) else c)"

definition py_lower :: "string \<Rightarrow> string" where
  "py_lower s = map py_lower_char s"

definition py_startswith :: "string \<Rightarrow> string \<Rightarrow> bool" where
  "py_startswith s p = (take (length p) s = p)"

definition py_endswith :: "string \<Rightarrow> string \<Rightarrow> bool" where
  "py_endswith s p = (length p \<le> length s \<and> drop (length s - length p) s = p)"

text \<open>\<open>q in s\<close> for strings: \<open>q\<close> occurs in \<open>s\<close> as a contiguous run.\<close>

fun py_in :: "string \<Rightarrow> string \<Rightarrow> bool" where
  "py_in q [] = (q = [])"
| "py_in q (c # cs) = (py_startswith (c # cs) q \<or> py_in q cs)"

text \<open>\<open>s.split(sep)\<close> for a separator of one character: the pieces between the
  occurrences of \<open>sep\<close>, empty pieces included; never the empty list.\<close>

fun py_split :: "char \<Rightarrow> string \<Rightarrow> string list" where
  "py_split sep [] = [[]]"
| "py_split sep (c # cs) =
     (if c = sep then [] # py_split sep cs
      else (case py_split sep cs of
              [] \<Rightarrow> [[c]]
            | p # ps \<Rightarrow> (c # p) # ps))"

text \<open>\<open>s.split(sep, 1)\<close>: at most one cut, at the first occurrence of \<open>sep\<close>.\<close>

definition py_split1 :: "char \<Rightarrow> string \<Rightarrow> string list" where
  "py_split1 sep s =
     (if sep \<in> set s
      then [takeWhile (\<lambda>c. c \<noteq> sep) s, tl (dropWhile (\<lambda>c. c \<noteq> sep) s)]
      else [s])"

text \<open>\<open>xs[i]\<close> for a literal index \<open>i \<ge> 0\<close>: raises IndexError out of range.\<close>

definition py_index :: "'a list \<Rightarrow> nat \<Rightarrow> py_error + 'a" where
  "py_index xs i = (if i < length xs then Inr (xs ! i) else Inl IndexError)"

text \<open>
  \<open>str.splitlines()\<close>: a line ends at \<open>\n\<close>, \<open>\r\<close>, \<open>\r\n\<close>, \<open>\v\<close>, \<open>\f\<close>,
  U+001C, U+001D, U+001E or U+0085; the line ends are dropped, and a text that ends
  with a line end has no empty last line.
\<close>

definition is_linebreak :: "char \<Rightarrow> bool" where
  "is_linebreak c =
     (let n = (of_char c :: nat)
      in (10 \<le> n \<and> n \<le> 13) \<or> (28 \<le> n \<and> n \<le> 30) \<or> n = 133)"

fun splitlines_acc :: "string \<Rightarrow> string \<Rightarrow> string list" where
  "splitlines_acc cur [] = (if cur = [] then [] else [rev cur])"
| "splitlines_acc cur [c] =
     (if is_linebreak c then [rev cur] else [rev (c # cur)])"
| "splitlines_acc cur (c # d # cs) =
     (if c = CHR 0x0D \<and> d = CHR 0x0A then rev cur # splitlines_acc [] cs
      else if is_linebreak c then rev cur # splitlines_acc [] (d # cs)
      else splitlines_acc (c # cur) (d # cs))"

definition py_splitlines :: "string \<Rightarrow> string list" where
  "py_splitlines s = splitlines_acc [] s"

text \<open>
  \<open>int(s)\<close> in base 10: white space around the number is skipped (here U+001C to
  U+001F do not count as white space), then an optional sign, then decimal digits, where
  one underscore may stand between two digits. Anything else raises ValueError,
  modelled as \<open>None\<close>. The limit on the number of digits (4300 by default since
  Python 3.11, also a ValueError) is not modelled.
\<close>

definition int_isspace :: "char \<Rightarrow> bool" where
  "int_isspace c =
     (let n = (of_char c :: nat)
      in (9 \<le> n \<and> n \<le> 13) \<or> n = 32 \<or> n = 133 \<or> n = 160)"

definition is_digit :: "char \<Rightarrow> bool" where
  "is_digit c = (let n = (of_char c :: nat) in 48 \<le> n \<and> n \<le> 57)"

definition digit_val :: "char \<Rightarrow> nat" where
  "digit_val c = of_char c - 48"

fun parse_digits :: "nat \<Rightarrow> string \<Rightarrow> nat option" where
  "parse_digits acc [] = Some acc"
| "parse_digits acc [c] =
     (if is_digit c then Some (10 * acc + digit_val c) else None)"
| "parse_digits acc (c # d # cs) =
     (if is_digit c then parse_digits (10 * acc + digit_val c) (d # cs)
      else if c = CHR ''_'' \<and> is_digit d then parse_digits acc (d # cs)
      else None)"

definition parse_nat :: "string \<Rightarrow> nat option" where
  "parse_nat s =
     (case s of
        [] \<Rightarrow> None
      | c # cs \<Rightarrow> if is_digit c then parse_digits (digit_val c) cs else None)"

definition py_int :: "string \<Rightarrow> int option" where
  "py_int s =
     (let t = rev (dropWhile int_isspace (rev (dropWhile int_isspace s)))
      in case t of
           [] \<Rightarrow> None
         | c # cs \<Rightarrow>
             if c = CHR ''-'' then map_option (\<lambda>n. - int n) (parse_nat cs)
             else if c = CHR ''+'' then map_option int (parse_nat cs)
             else map_option int (parse_nat t))"

text \<open>\<open>str(n)\<close> of an integer, as an f-string formats it: decimal, \<open>-\<close> when negative.\<close>

fun str_nat :: "nat \<Rightarrow> string" where
  "str_nat n =
     (if n < 10 then [char_of (48 + n)]
      else str_nat (n div 10) @ [char_of (48 + n mod 10)])"

declare str_nat.simps [simp del]

definition py_str :: "int \<Rightarrow> string" where
  "py_str i = (if i < 0 then CHR ''-'' # str_nat (nat (- i)) else str_nat (nat i))"

section \<open>Helper functions of the script\<close>

text \<open>
  \<open>name.replace(" ", "").replace("'", "")\<close>: replacing a one-character string by the
  empty string deletes every occurrence of that character.
\<close>

definition py_remove :: "char \<Rightarrow> string \<Rightarrow> string" where
  "py_remove c s = filter (\<lambda>x. x \<noteq> c) s"

definition sanitize_role_model_name :: "string \<Rightarrow> string" where
  "sanitize_role_model_name name = py_remove (CHR 0x27) (py_remove (CHR '' '') name)"

text \<open>Sequencing of steps that may raise: the first exception ends the computation.\<close>

definition ebind :: "py_error + 'a \<Rightarrow> ('a \<Rightarrow> py_error + 'b) \<Rightarrow> py_error + 'b" where
  "ebind m f = (case m of Inl e \<Rightarrow> Inl e | Inr x \<Rightarrow> f x)"

text \<open>\<open>xs[i]\<close> for a computed index: a negative index counts from the end.\<close>

definition py_index_int :: "'a list \<Rightarrow> int \<Rightarrow> py_error + 'a" where
  "py_index_int xs i =
     (if 0 \<le> i \<and> i < int (length xs) then Inr (xs ! nat i)
      else if i < 0 \<and> - int (length xs) \<le> i then Inr (xs ! nat (int (length xs) + i))
      else Inl IndexError)"

section \<open>The output folder and the console\<close>

text \<open>
  The record that \<open>create_json_entry\<close> builds and hands to \<open>json.dump\<close>; the fields are
  the keys of the dictionary, in its order.
\<close>

record json_entry =
  Role_Model_Name :: string
  Role_Model_Context :: string
  Situation_Faced :: string
  Challenge_Narrative :: string
  Mental_Health_Themes :: "string list"
  Coping_Strategies_Used :: "string list"
  Key_Action_Taken :: string
  Key_Quote_or_Insight :: string
  Summary_Psychological :: string
  Outcome_Resolution :: string
  Source_Reference :: string

text \<open>
  \<open>OUTPUT_FOLDER\<close> on disk is a table from file names to contents, the content of a file
  being the entry that was dumped into it. \<open>os.listdir\<close> gives the names (in an order
  the script does not rely on); \<open>open(path, 'w')\<close> followed by \<open>json.dump\<close> creates the
  file or replaces the content of the file of that name. Failures of the operating
  system (a name with a path separator or a NUL, an overlong name, a full disk) are
  outside the model.
\<close>

type_synonym folder = "(string \<times> json_entry) list"

definition os_listdir :: "folder \<Rightarrow> string list" where
  "os_listdir d = map fst d"

definition open_w_dump :: "folder \<Rightarrow> string \<Rightarrow> json_entry \<Rightarrow> folder" where
  "open_w_dump d fname entry = AList.update fname entry d"

definition OUTPUT_FOLDER :: string where
  "OUTPUT_FOLDER = ''Generated_JSON_Entries''"

text \<open>\<open>os.path.join\<close> of two parts on POSIX: an absolute second part stands alone.\<close>

definition os_path_join :: "string \<Rightarrow> string \<Rightarrow> string" where
  "os_path_join a b =
     (if py_startswith b ''/'' then b
      else if a = [] \<or> py_endswith a ''/'' then a @ b
      else a @ ''/'' @ b)"

text \<open>
  The console is the list of lines the operator is still going to type. \<open>input()\<close> takes
  the next line, without its line end, and raises EOFError when there is none. What the
  script prints is not modelled. A function that reads input takes the console and
  returns its value together with the rest of the console.
\<close>

type_synonym console = "string list"

definition input_line :: "console \<Rightarrow> py_error + (string \<times> console)" where
  "input_line c = (case c of [] \<Rightarrow> Inl EOFError | l # ls \<Rightarrow> Inr (l, ls))"

section \<open>The next story number\<close>

text \<open>
  One round of the loop of \<open>get_next_story_number\<close> over the listing: \<open>Inr None\<close> is a
  \<open>continue\<close>, \<open>Inr (Some n)\<close> appends \<open>n\<close> to \<open>existing_numbers\<close>. The ValueError of \<open>int\<close>
  is caught by the source and is a \<open>continue\<close>.
\<close>

definition scan_file :: "string \<Rightarrow> string \<Rightarrow> string \<Rightarrow> py_error + int option" where
  "scan_file clean_name roll_number fname =
     (if \<not> py_endswith fname ''.json'' then Inr None
      else let parts = py_split (CHR ''_'') fname
           in if length parts < 3 then Inr None
              else
                ebind (py_index parts 0) (\<lambda>file_clean_name.
                ebind (py_index parts 1) (\<lambda>story_part.
                ebind (py_index parts 2) (\<lambda>third.
                ebind (py_index (py_split (CHR ''.'') third) 0) (\<lambda>roll_part.
                  if file_clean_name \<noteq> clean_name then Inr None
                  else if roll_part \<noteq> roll_number then Inr None
                  else Inr (py_int story_part))))))"

fun scan_files :: "string \<Rightarrow> string \<Rightarrow> string list \<Rightarrow> int list \<Rightarrow> py_error + int list" where
  "scan_files clean_name roll_number [] existing_numbers = Inr existing_numbers"
| "scan_files clean_name roll_number (fname # rest) existing_numbers =
     ebind (scan_file clean_name roll_number fname) (\<lambda>r.
       case r of
         None \<Rightarrow> scan_files clean_name roll_number rest existing_numbers
       | Some n \<Rightarrow> scan_files clean_name roll_number rest (existing_numbers @ [n]))"

definition get_next_story_number :: "folder \<Rightarrow> string \<Rightarrow> string \<Rightarrow> py_error + int" where
  "get_next_story_number d role_model_name roll_number =
     (let clean_name = sanitize_role_model_name role_model_name
      in ebind (scan_files clean_name roll_number (os_listdir d) []) (\<lambda>existing_numbers.
           if existing_numbers = [] then Inr 1
           else Inr (Max (set existing_numbers) + 1)))"

section \<open>Collecting the fields\<close>

definition MENTAL_HEALTH_THEMES :: "string list" where
  "MENTAL_HEALTH_THEMES =
     [''anxiety'', ''depression'', ''stress_management'', ''burnout'', ''grief'',
      ''addiction_recovery'', ''imposter_syndrome'', ''self_esteem'',
      ''relationship_challenges'', ''public_pressure'']"

fun infer_from_lines :: "string list \<Rightarrow> py_error + string option" where
  "infer_from_lines [] = Inr None"
| "infer_from_lines (line # rest) =
     (if py_startswith (py_lower line) ''role model:''
      then ebind (py_index (py_split1 (CHR '':'') line) 1) (\<lambda>v. Inr (Some (py_strip v)))
      else infer_from_lines rest)"

definition infer_role_model_name_from_raw :: "string \<Rightarrow> py_error + string option" where
  "infer_role_model_name_from_raw raw_content = infer_from_lines (py_splitlines raw_content)"

fun get_role_model_name :: "console \<Rightarrow> py_error + (string \<times> console)" where
  "get_role_model_name [] = Inl EOFError"
| "get_role_model_name (l # ls) =
     (let name = py_strip l
      in if name \<noteq> [] \<and> 2 \<le> length name then Inr (name, ls)
         else get_role_model_name ls)"

definition get_or_confirm_role_model_name :: "string \<Rightarrow> console \<Rightarrow> py_error + (string \<times> console)" where
  "get_or_confirm_role_model_name raw_content c =
     ebind (infer_role_model_name_from_raw raw_content) (\<lambda>inferred.
       if inferred \<noteq> None \<and> inferred \<noteq> Some []
       then ebind (input_line c) (\<lambda>(l, c').
              let user_input = py_strip l
              in if user_input \<noteq> [] then Inr (user_input, c')
                 else Inr (the inferred, c'))
       else get_role_model_name c)"

text \<open>
  The loop shared by the free-text prompts,
  \<open>while not s or len(s) < n: s = input(...).strip()\<close>, started with the first answer.
\<close>

fun while_too_short :: "nat \<Rightarrow> string \<Rightarrow> console \<Rightarrow> py_error + (string \<times> console)" where
  "while_too_short n s [] = (if s = [] \<or> length s < n then Inl EOFError else Inr (s, []))"
| "while_too_short n s (l # ls) =
     (if s = [] \<or> length s < n then while_too_short n (py_strip l) ls
      else Inr (s, l # ls))"

definition get_context :: "string \<Rightarrow> console \<Rightarrow> py_error + (string \<times> console)" where
  "get_context name c =
     ebind (input_line c) (\<lambda>(l, c'). while_too_short 10 (py_strip l) c')"

definition get_situation_faced :: "console \<Rightarrow> py_error + (string \<times> console)" where
  "get_situation_faced c =
     ebind (input_line c) (\<lambda>(l, c'). while_too_short 10 (py_strip l) c')"

definition get_challenge_narrative :: "console \<Rightarrow> py_error + (string \<times> console)" where
  "get_challenge_narrative c =
     ebind (input_line c) (\<lambda>(l, c'). while_too_short 20 (py_strip l) c')"

definition get_key_action :: "console \<Rightarrow> py_error + (string \<times> console)" where
  "get_key_action c =
     ebind (input_line c) (\<lambda>(l, c'). while_too_short 5 (py_strip l) c')"

definition get_psychological_lesson :: "console \<Rightarrow> py_error + (string \<times> console)" where
  "get_psychological_lesson c =
     ebind (input_line c) (\<lambda>(l, c'). while_too_short 20 (py_strip l) c')"

definition get_outcome_resolution :: "console \<Rightarrow> py_error + (string \<times> console)" where
  "get_outcome_resolution c =
     ebind (input_line c) (\<lambda>(l, c'). while_too_short 10 (py_strip l) c')"

text \<open>
  \<open>[int(c.strip()) - 1 for c in choices]\<close>: the first token that \<open>int\<close> refuses raises
  ValueError.
\<close>

fun choice_indices :: "string list \<Rightarrow> py_error + int list" where
  "choice_indices [] = Inr []"
| "choice_indices (c # cs) =
     (case py_int (py_strip c) of
        None \<Rightarrow> Inl ValueError
      | Some n \<Rightarrow> ebind (choice_indices cs) (\<lambda>ns. Inr ((n - 1) # ns)))"

text \<open>\<open>[MENTAL_HEALTH_THEMES[c] for c in choices]\<close>\<close>

fun themes_at :: "int list \<Rightarrow> py_error + string list" where
  "themes_at [] = Inr []"
| "themes_at (c # cs) =
     ebind (py_index_int MENTAL_HEALTH_THEMES c) (\<lambda>t.
     ebind (themes_at cs) (\<lambda>ts. Inr (t # ts)))"

text \<open>
  The body of the \<open>try\<close> for one line of input, without the \<open>except\<close>: the value of
  \<open>selected\<close> after it, from the value before it.
\<close>

definition try_choices :: "string list \<Rightarrow> string \<Rightarrow> py_error + string list" where
  "try_choices selected line =
     ebind (choice_indices (py_split (CHR '','') line)) (\<lambda>choices.
       if list_all (\<lambda>c. 0 \<le> c \<and> c < int (length MENTAL_HEALTH_THEMES)) choices
       then if 2 \<le> length choices \<and> length choices \<le> 4
            then themes_at choices
            else Inr selected
       else Inr selected)"

text \<open>
  One round of the \<open>while\<close> loop: \<open>except ValueError\<close> leaves \<open>selected\<close> as it was, any
  other exception leaves the function.
\<close>

definition themes_round :: "string list \<Rightarrow> string \<Rightarrow> py_error + string list" where
  "themes_round selected line =
     (case try_choices selected line of
        Inl ValueError \<Rightarrow> Inr selected
      | Inl e \<Rightarrow> Inl e
      | Inr selected' \<Rightarrow> Inr selected')"

fun themes_loop :: "string list \<Rightarrow> console \<Rightarrow> py_error + (string list \<times> console)" where
  "themes_loop selected [] =
     (if length selected < 2 \<or> 4 < length selected then Inl EOFError
      else Inr (selected, []))"
| "themes_loop selected (l # ls) =
     (if length selected < 2 \<or> 4 < length selected
      then ebind (themes_round selected l) (\<lambda>selected'. themes_loop selected' ls)
      else Inr (selected, l # ls))"

definition select_mental_health_themes :: "console \<Rightarrow> py_error + (string list \<times> console)" where
  "select_mental_health_themes c = themes_loop [] c"

text \<open>\<open>[s.strip() for s in strategies_input.split(',') if s.strip()]\<close>\<close>

definition split_strategies :: "string \<Rightarrow> string list" where
  "split_strategies strategies_input =
     map py_strip (filter (\<lambda>s. py_strip s \<noteq> []) (py_split (CHR '','') strategies_input))"

definition get_coping_strategies :: "console \<Rightarrow> py_error + (string list \<times> console)" where
  "get_coping_strategies c =
     ebind (input_line c) (\<lambda>(l, c').
     ebind (while_too_short 5 (py_strip l) c') (\<lambda>(strategies_input, c'').
       Inr (split_strategies strategies_input, c'')))"

text \<open>
  \<open>get_quote_from_text\<close> calls itself when the quote is not in the text and the answer
  to the confirmation is not \<open>y\<close>. Each call reads at least one line, so the recursion
  ends with the console; Python's limit on the depth of recursion is not modelled.
\<close>

lemma while_too_short_console:
  "while_too_short n s c = Inr (q, c') \<Longrightarrow> length c' \<le> length c"
  by (induction n s c rule: while_too_short.induct) (auto split: if_splits)

lemma ebind_cong [fundef_cong]:
  "m = m' \<Longrightarrow> (\<And>x. m' = Inr x \<Longrightarrow> f x = f' x) \<Longrightarrow> ebind m f = ebind m' f'"
  by (cases m') (simp_all add: ebind_def)

function get_quote_from_text :: "string \<Rightarrow> console \<Rightarrow> py_error + (string \<times> console)" where
  "get_quote_from_text raw_content c =
     ebind (input_line c) (\<lambda>(l, c1).
     ebind (while_too_short 10 (py_strip l) c1) (\<lambda>(quote, c2).
       if \<not> py_in (py_lower quote) (py_lower raw_content)
       then ebind (input_line c2) (\<lambda>(answer, c3).
              let confirm = py_lower answer
              in if confirm \<noteq> ''y'' then get_quote_from_text raw_content c3
                 else Inr (quote, c3))
       else Inr (quote, c2)))"
  by pat_completeness auto
termination
proof (relation "measure (\<lambda>(raw_content, c). length c)")
  show "wf (measure (\<lambda>(raw_content, c). length c))"
    by simp
next
  fix raw_content :: string and c :: console and x l c1 y quote c2 z answer c3 confirm
  assume "input_line c = Inr x" "(l, c1) = x"
    "while_too_short 10 (py_strip l) c1 = Inr y" "(quote, c2) = y"
    "\<not> py_in (py_lower quote) (py_lower raw_content)"
    "input_line c2 = Inr z" "(answer, c3) = z" "confirm = py_lower answer"
    "confirm \<noteq> ''y''"
  then have "length c1 < length c" "length c2 \<le> length c1" "length c3 < length c2"
    by (auto simp: input_line_def dest: while_too_short_console split: list.splits)
  then show "((raw_content, c3), (raw_content, c)) \<in> measure (\<lambda>(raw_content, c). length c)"
    by simp
qed

declare get_quote_from_text.simps [simp del]

section \<open>Creating and saving one entry\<close>

text \<open>A raw file of \<open>RAW_DATA_FOLDER\<close>: its name and the text \<open>display_raw_content\<close> reads.\<close>

record raw_file =
  file_name :: string
  file_content :: string

definition display_raw_content :: "raw_file \<Rightarrow> string" where
  "display_raw_content filepath = file_content filepath"

definition get_source_reference :: "raw_file \<Rightarrow> string" where
  "get_source_reference filepath = file_name filepath"

text \<open>\<open>f"{clean_name}_{story_number}_{roll_number}.json"\<close>\<close>

definition output_filename :: "string \<Rightarrow> int \<Rightarrow> string \<Rightarrow> string" where
  "output_filename clean_name story_number roll_number =
     clean_name @ ''_'' @ py_str story_number @ ''_'' @ roll_number @ ''.json''"

text \<open>
  \<open>create_json_entry\<close> returns the path and the entry; the model returns with them the
  output folder after the write and the rest of the console. The file is written under
  \<open>output_filename\<close> in the folder.
\<close>

definition create_json_entry ::
  "folder \<Rightarrow> raw_file \<Rightarrow> string \<Rightarrow> console
     \<Rightarrow> py_error + ((string \<times> json_entry) \<times> folder \<times> console)" where
  "create_json_entry d raw_filepath roll_number c0 =
     (let raw_content = display_raw_content raw_filepath
      in ebind (get_or_confirm_role_model_name raw_content c0) (\<lambda>(role_model_name, c1).
         ebind (get_next_story_number d role_model_name roll_number) (\<lambda>story_number.
         ebind (get_context role_model_name c1) (\<lambda>(context, c2).
         ebind (get_situation_faced c2) (\<lambda>(situation, c3).
         ebind (get_challenge_narrative c3) (\<lambda>(narrative, c4).
         ebind (select_mental_health_themes c4) (\<lambda>(themes, c5).
         ebind (get_coping_strategies c5) (\<lambda>(strategies, c6).
         ebind (get_key_action c6) (\<lambda>(action, c7).
         ebind (get_quote_from_text raw_content c7) (\<lambda>(quote, c8).
         ebind (get_psychological_lesson c8) (\<lambda>(lesson, c9).
         ebind (get_outcome_resolution c9) (\<lambda>(outcome, c10).
           let source = get_source_reference raw_filepath;
               entry = \<lparr> Role_Model_Name = role_model_name,
                         Role_Model_Context = context,
                         Situation_Faced = situation,
                         Challenge_Narrative = narrative,
                         Mental_Health_Themes = themes,
                         Coping_Strategies_Used = strategies,
                         Key_Action_Taken = action,
                         Key_Quote_or_Insight = quote,
                         Summary_Psychological = lesson,
                         Outcome_Resolution = outcome,
                         Source_Reference = source \<rparr>;
               clean_name = sanitize_role_model_name role_model_name;
               fname = output_filename clean_name story_number roll_number;
               output_path = os_path_join OUTPUT_FOLDER fname
           in Inr ((output_path, entry), open_w_dump d fname entry, c10)))))))))))))"

section \<open>Facts about the string primitives\<close>

lemma dropWhile_keeps_last: "ys \<noteq> [] \<Longrightarrow> \<not> P (last ys) \<Longrightarrow> dropWhile P ys \<noteq> [] \<and> last (dropWhile P ys) = last ys"
  by (induction ys) auto

lemma strip_right_keeps_head:
  assumes "xs \<noteq> []" "\<not> P (hd xs)"
  shows "rev (dropWhile P (rev xs)) \<noteq> [] \<and> hd (rev (dropWhile P (rev xs))) = hd xs
     \<and> \<not> P (last (rev (dropWhile P (rev xs))))"
proof -
  have "rev xs \<noteq> []" "\<not> P (last (rev xs))"
    using assms by (simp_all add: last_rev)
  then have d: "dropWhile P (rev xs) \<noteq> []" "last (dropWhile P (rev xs)) = hd xs"
    using dropWhile_keeps_last[of "rev xs" P] assms by (simp_all add: last_rev)
  then show ?thesis
    using hd_dropWhile[of P "rev xs"] by (simp add: hd_rev last_rev)
qed

lemma py_strip_ends:
  "py_strip s = [] \<or> (\<not> py_isspace (hd (py_strip s)) \<and> \<not> py_isspace (last (py_strip s)))"
proof (cases "dropWhile py_isspace s = []")
  case True
  have "py_strip s = []"
    unfolding py_strip_def True by simp
  then show ?thesis ..
next
  case False
  then have "\<not> py_isspace (hd (dropWhile py_isspace s))"
    by (rule hd_dropWhile)
  with False show ?thesis
    using strip_right_keeps_head[of "dropWhile py_isspace s" py_isspace] by (simp add: py_strip_def)
qed

lemma py_strip_fixed:
  "s = [] \<or> (\<not> py_isspace (hd s) \<and> \<not> py_isspace (last s)) \<Longrightarrow> py_strip s = s"
proof (cases "s = []")
  case True
  then show ?thesis by (simp add: py_strip_def)
next
  case False
  assume "s = [] \<or> (\<not> py_isspace (hd s) \<and> \<not> py_isspace (last s))"
  with False have e: "\<not> py_isspace (hd s)" "\<not> py_isspace (hd (rev s))"
    by (simp_all add: hd_rev)
  have "dropWhile py_isspace s = s" "dropWhile py_isspace (rev s) = rev s"
    using e by (simp_all add: dropWhile_eq_self_iff)
  then show ?thesis
    by (simp add: py_strip_def)
qed

lemma py_strip_idem: "py_strip (py_strip s) = py_strip s"
  using py_strip_ends[of s] by (rule py_strip_fixed)

lemma while_too_short_result:
  "while_too_short n s c = Inr (q, c') \<Longrightarrow> q \<noteq> [] \<and> n \<le> length q \<and> (q = s \<or> q \<in> py_strip ` set c)"
  by (induction n s c rule: while_too_short.induct) (auto split: if_splits)

section \<open>The free-text prompts\<close>

lemma free_text_result:
  assumes "ebind (input_line c) (\<lambda>(l, c'). while_too_short n (py_strip l) c') = Inr (s, c2)"
  shows "py_strip s = s \<and> n \<le> length s"
proof -
  from assms obtain l c' where "c = l # c'" and w: "while_too_short n (py_strip l) c' = Inr (s, c2)"
    by (cases c) (auto simp: ebind_def input_line_def)
  from while_too_short_result[OF w] have "n \<le> length s" "s = py_strip l \<or> s \<in> py_strip ` set c'"
    by simp_all
  then show ?thesis
    by (auto simp: py_strip_idem)
qed

lemma free_text_reprompt:
  assumes "length (py_strip l) < n"
  shows "ebind (input_line (l # c)) (\<lambda>(l, c'). while_too_short n (py_strip l) c')
       = ebind (input_line c) (\<lambda>(l, c'). while_too_short n (py_strip l) c')"
  using assms by (cases c) (simp_all add: ebind_def input_line_def)

lemmas free_text_defs =
  get_context_def get_situation_faced_def get_outcome_resolution_def
  get_challenge_narrative_def get_psychological_lesson_def get_key_action_def

definition example_console :: console where
  "example_console = [''  She spoke openly about it.  '', ''rest'']"

text \<open>
  C8: every free-text prompt returns a string whose length after trimming reaches the
  minimum of the prompt: 10 for the context, the situation and the outcome, 20 for the
  challenge narrative and the psychological lesson, 5 for the key action. A line that is
  shorter after trimming is never returned: the prompt goes on with the next line of the
  console, however many short lines come first.
\<close>

theorem free_text_fields_meet_minimum:
  "(get_context name c = Inr (s, c') \<longrightarrow> 10 \<le> length (py_strip s)) \<and>
   (get_situation_faced c = Inr (s, c') \<longrightarrow> 10 \<le> length (py_strip s)) \<and>
   (get_outcome_resolution c = Inr (s, c') \<longrightarrow> 10 \<le> length (py_strip s)) \<and>
   (get_challenge_narrative c = Inr (s, c') \<longrightarrow> 20 \<le> length (py_strip s)) \<and>
   (get_psychological_lesson c = Inr (s, c') \<longrightarrow> 20 \<le> length (py_strip s)) \<and>
   (get_key_action c = Inr (s, c') \<longrightarrow> 5 \<le> length (py_strip s)) \<and>
   (length (py_strip l) < 10 \<longrightarrow> get_context name (l # c) = get_context name c) \<and>
   (length (py_strip l) < 10 \<longrightarrow> get_situation_faced (l # c) = get_situation_faced c) \<and>
   (length (py_strip l) < 10 \<longrightarrow> get_outcome_resolution (l # c) = get_outcome_resolution c) \<and>
   (length (py_strip l) < 20 \<longrightarrow> get_challenge_narrative (l # c) = get_challenge_narrative c) \<and>
   (length (py_strip l) < 20 \<longrightarrow> get_psychological_lesson (l # c) = get_psychological_lesson c) \<and>
   (length (py_strip l) < 5 \<longrightarrow> get_key_action (l # c) = get_key_action c)"
  unfolding free_text_defs
  using free_text_result[of c _ s c'] free_text_reprompt[of l _ c]
  by metis

theorem free_text_fields_meet_minimum_witness:
  "get_context ''Jane Doe'' example_console = Inr (''She spoke openly about it.'', [''rest'']) \<and>
   get_situation_faced example_console = Inr (''She spoke openly about it.'', [''rest'']) \<and>
   get_outcome_resolution example_console = Inr (''She spoke openly about it.'', [''rest'']) \<and>
   get_challenge_narrative example_console = Inr (''She spoke openly about it.'', [''rest'']) \<and>
   get_psychological_lesson example_console = Inr (''She spoke openly about it.'', [''rest'']) \<and>
   get_key_action example_console = Inr (''She spoke openly about it.'', [''rest'']) \<and>
   20 \<le> length (py_strip ''She spoke openly about it.'') \<and>
   length (py_strip '' no '') < 5 \<and>
   get_context ''Jane Doe'' ('' no '' # example_console)
     = Inr (''She spoke openly about it.'', [''rest'']) \<and>
   get_challenge_narrative ('' no '' # example_console)
     = Inr (''She spoke openly about it.'', [''rest'']) \<and>
   get_key_action ('' no '' # example_console)
     = Inr (''She spoke openly about it.'', [''rest''])"
proof -
  have a: "get_context ''Jane Doe'' example_console = Inr (''She spoke openly about it.'', [''rest''])"
    by code_simp
  have b: "get_situation_faced example_console = Inr (''She spoke openly about it.'', [''rest''])"
    by code_simp
  have c: "get_outcome_resolution example_console = Inr (''She spoke openly about it.'', [''rest''])"
    by code_simp
  have d: "get_challenge_narrative example_console = Inr (''She spoke openly about it.'', [''rest''])"
    by code_simp
  have e: "get_psychological_lesson example_console = Inr (''She spoke openly about it.'', [''rest''])"
    by code_simp
  have f: "get_key_action example_console = Inr (''She spoke openly about it.'', [''rest''])"
    by code_simp
  have g: "length (py_strip '' no '') < 5"
    by code_simp
  show ?thesis
    using a b c d e f g
      free_text_fields_meet_minimum[of "''Jane Doe''" example_console
        "''She spoke openly about it.''" "[''rest'']" "'' no ''"]
    by simp
qed

section \<open>What the scan of the output folder counts\<close>

lemma py_split_nonempty: "py_split sep s \<noteq> []"
  by (induction s) (auto split: list.splits)

lemma hd_py_split: "hd (py_split sep s) = takeWhile (\<lambda>c. c \<noteq> sep) s"
  using py_split_nonempty[of sep]
  by (induction s) (auto split: list.splits)

lemma py_split_pieces: "p \<in> set (py_split sep s) \<Longrightarrow> sep \<notin> set p"
  by (induction s arbitrary: p) (auto split: list.splits if_splits)

definition counted :: "string \<Rightarrow> string \<Rightarrow> string \<Rightarrow> int option" where
  "counted clean_name roll_number fname =
     (let parts = py_split (CHR ''_'') fname
      in if py_endswith fname ''.json'' \<and> 3 \<le> length parts
            \<and> takeWhile (\<lambda>c. c \<noteq> CHR ''_'') fname = clean_name
            \<and> takeWhile (\<lambda>c. c \<noteq> CHR ''.'') (parts ! 2) = roll_number
         then py_int (parts ! 1) else None)"

lemma scan_file_counted: "scan_file clean_name roll_number fname = Inr (counted clean_name roll_number fname)"
  using py_split_nonempty[of "CHR ''.''" "py_split (CHR ''_'') fname ! 2"]
    hd_py_split[of "CHR ''_''" fname] hd_py_split[of "CHR ''.''" "py_split (CHR ''_'') fname ! 2"]
    py_split_nonempty[of "CHR ''_''" fname]
  by (auto simp: scan_file_def counted_def Let_def ebind_def py_index_def hd_conv_nth)

lemma scan_files_counted:
  "scan_files clean_name roll_number fnames acc
     = Inr (acc @ List.map_filter (counted clean_name roll_number) fnames)"
  by (induction fnames arbitrary: acc)
     (auto simp: scan_file_counted ebind_def split: option.splits)

lemma get_next_story_number_counted:
  "get_next_story_number d role_model_name roll_number =
     Inr (let ns = List.map_filter (counted (sanitize_role_model_name role_model_name) roll_number)
                     (os_listdir d)
          in if ns = [] then 1 else Max (set ns) + 1)"
  by (simp add: get_next_story_number_def scan_files_counted ebind_def Let_def)

lemma counted_separator_in_key:
  assumes "CHR ''_'' \<in> set clean_name \<or> CHR ''_'' \<in> set roll_number \<or> CHR ''.'' \<in> set roll_number"
  shows "counted clean_name roll_number fname = None"
proof (rule ccontr)
  assume "counted clean_name roll_number fname \<noteq> None"
  then have len: "3 \<le> length (py_split (CHR ''_'') fname)"
    and cn: "takeWhile (\<lambda>c. c \<noteq> CHR ''_'') fname = clean_name"
    and rn: "takeWhile (\<lambda>c. c \<noteq> CHR ''.'') (py_split (CHR ''_'') fname ! 2) = roll_number"
    by (auto simp: counted_def Let_def split: if_splits)
  have 1: "CHR ''_'' \<notin> set clean_name"
    using cn set_takeWhileD by fastforce
  have 2: "CHR ''.'' \<notin> set roll_number"
    using rn set_takeWhileD by fastforce
  have "py_split (CHR ''_'') fname ! 2 \<in> set (py_split (CHR ''_'') fname)"
    using len by simp
  then have "CHR ''_'' \<notin> set (py_split (CHR ''_'') fname ! 2)"
    by (rule py_split_pieces)
  then have 3: "CHR ''_'' \<notin> set roll_number"
    using rn set_takeWhileD by fastforce
  from assms 1 2 3 show False by blast
qed

lemma map_filter_all_None: "(\<And>x. f x = None) \<Longrightarrow> List.map_filter f xs = []"
  by (induction xs) simp_all

definition example_entry :: json_entry where
  "example_entry =
     \<lparr> Role_Model_Name = ''Mary_Ann'',
       Role_Model_Context = ''Writer and advocate'',
       Situation_Faced = ''Burnout after a long tour'',
       Challenge_Narrative = ''She stopped touring for a year.'',
       Mental_Health_Themes = [''burnout'', ''stress_management''],
       Coping_Strategies_Used = [''therapy'', ''rest''],
       Key_Action_Taken = ''Took a break'',
       Key_Quote_or_Insight = ''I had to stop.'',
       Summary_Psychological = ''Rest is part of the work.'',
       Outcome_Resolution = ''Returned to writing'',
       Source_Reference = ''mary_ann.txt'' \<rparr>"

text \<open>
  C9: the scan takes as the subject of a file the text before the first underscore of its
  name, as the operator the third underscore-separated token up to its first dot, and as
  the number the second token. So when the sanitized subject name contains an underscore,
  or the roll number contains an underscore or a dot, no file is ever counted and the
  result is 1 whatever the folder holds, the records written earlier for the same subject
  and roll number included.
\<close>

theorem separator_in_key_restarts_numbering:
  "scan_file clean_name roll_number fname =
     Inr (if py_endswith fname ''.json'' \<and> 3 \<le> length (py_split (CHR ''_'') fname)
             \<and> takeWhile (\<lambda>c. c \<noteq> CHR ''_'') fname = clean_name
             \<and> takeWhile (\<lambda>c. c \<noteq> CHR ''.'') (py_split (CHR ''_'') fname ! 2) = roll_number
          then py_int (py_split (CHR ''_'') fname ! 1) else None)
   \<and> (CHR ''_'' \<in> set (sanitize_role_model_name name) \<or> CHR ''_'' \<in> set roll
          \<or> CHR ''.'' \<in> set roll
        \<longrightarrow> get_next_story_number d name roll = Inr 1)"
proof (intro conjI impI)
  show "scan_file clean_name roll_number fname =
     Inr (if py_endswith fname ''.json'' \<and> 3 \<le> length (py_split (CHR ''_'') fname)
             \<and> takeWhile (\<lambda>c. c \<noteq> CHR ''_'') fname = clean_name
             \<and> takeWhile (\<lambda>c. c \<noteq> CHR ''.'') (py_split (CHR ''_'') fname ! 2) = roll_number
          then py_int (py_split (CHR ''_'') fname ! 1) else None)"
    by (simp add: scan_file_counted counted_def Let_def)
next
  assume "CHR ''_'' \<in> set (sanitize_role_model_name name) \<or> CHR ''_'' \<in> set roll
          \<or> CHR ''.'' \<in> set roll"
  then have "\<And>f. counted (sanitize_role_model_name name) roll f = None"
    by (rule counted_separator_in_key)
  then have "List.map_filter (counted (sanitize_role_model_name name) roll) (os_listdir d) = []"
    by (rule map_filter_all_None)
  then show "get_next_story_number d name roll = Inr 1"
    by (simp add: get_next_story_number_counted)
qed

theorem separator_in_key_restarts_numbering_witness:
  "CHR ''_'' \<in> set (sanitize_role_model_name ''Mary_Ann'')
   \<and> output_filename (sanitize_role_model_name ''Mary_Ann'') 1 ''42'' = ''Mary_Ann_1_42.json''
   \<and> get_next_story_number [(''Mary_Ann_1_42.json'', example_entry)] ''Mary_Ann'' ''42'' = Inr 1
   \<and> CHR ''.'' \<in> set ''21.042''
   \<and> output_filename (sanitize_role_model_name ''Jane Doe'') 1 ''21.042'' = ''JaneDoe_1_21.042.json''
   \<and> get_next_story_number [(''JaneDoe_1_21.042.json'', example_entry)] ''Jane Doe'' ''21.042''
       = Inr 1"
proof -
  have a: "CHR ''_'' \<in> set (sanitize_role_model_name ''Mary_Ann'')"
    by code_simp
  have b: "output_filename (sanitize_role_model_name ''Mary_Ann'') 1 ''42'' = ''Mary_Ann_1_42.json''"
    by code_simp
  have c: "CHR ''.'' \<in> set ''21.042''"
    by simp
  have d: "output_filename (sanitize_role_model_name ''Jane Doe'') 1 ''21.042''
             = ''JaneDoe_1_21.042.json''"
    by code_simp
  show ?thesis
    using a b c d
      separator_in_key_restarts_numbering
        [of _ _ _ "''Mary_Ann''" "''42''" "[(''Mary_Ann_1_42.json'', example_entry)]"]
      separator_in_key_restarts_numbering
        [of _ _ _ "''Jane Doe''" "''21.042''" "[(''JaneDoe_1_21.042.json'', example_entry)]"]
    by simp
qed

section \<open>Saving an entry\<close>

definition story_console :: console where
  "story_console =
     ['''', ''American singer and advocate'', ''Anxiety while on tour'',
      ''She cancelled the tour and sought help.'', ''1,4'', ''therapy, rest'',
      ''Took a break'', ''I had to stop.'', ''Rest is part of recovery, not a failure.'',
      ''Returned to the stage'', ''next'']"

definition story_file :: raw_file where
  "story_file = \<lparr> file_name = ''jane.txt'',
       file_content = ''Source: magazine'' @ [CHR 0x0A] @ ''Role Model: Jane Doe'' @ [CHR 0x0A]
          @ ''She said: I had to stop. And she did.'' \<rparr>"

definition story_entry :: json_entry where
  "story_entry =
     \<lparr> Role_Model_Name = ''Jane Doe'',
       Role_Model_Context = ''American singer and advocate'',
       Situation_Faced = ''Anxiety while on tour'',
       Challenge_Narrative = ''She cancelled the tour and sought help.'',
       Mental_Health_Themes = [''anxiety'', ''burnout''],
       Coping_Strategies_Used = [''therapy'', ''rest''],
       Key_Action_Taken = ''Took a break'',
       Key_Quote_or_Insight = ''I had to stop.'',
       Summary_Psychological = ''Rest is part of recovery, not a failure.'',
       Outcome_Resolution = ''Returned to the stage'',
       Source_Reference = ''jane.txt'' \<rparr>"

definition second_console :: console where
  "second_console =
     ['''', ''Singer who spoke about grief'', ''The loss of her mother'',
      ''She wrote about the loss for a year.'', ''5,2'', ''journaling'',
      ''Wrote a memoir'', ''And she did.'', ''Grief needs time and words to heal.'',
      ''Published the memoir'']"

definition second_entry :: json_entry where
  "second_entry =
     \<lparr> Role_Model_Name = ''Jane Doe'',
       Role_Model_Context = ''Singer who spoke about grief'',
       Situation_Faced = ''The loss of her mother'',
       Challenge_Narrative = ''She wrote about the loss for a year.'',
       Mental_Health_Themes = [''grief'', ''depression''],
       Coping_Strategies_Used = [''journaling''],
       Key_Action_Taken = ''Wrote a memoir'',
       Key_Quote_or_Insight = ''And she did.'',
       Summary_Psychological = ''Grief needs time and words to heal.'',
       Outcome_Resolution = ''Published the memoir'',
       Source_Reference = ''jane.txt'' \<rparr>"

lemma ebind_Inr: "ebind m f = Inr y \<longleftrightarrow> (\<exists>x. m = Inr x \<and> f x = Inr y)"
  by (cases m) (simp_all add: ebind_def)

lemma create_json_entry_Inr:
  assumes "create_json_entry d raw_filepath roll_number c = Inr ((path, entry), d', c')"
  shows "\<exists>n. get_next_story_number d (Role_Model_Name entry) roll_number = Inr n
     \<and> path = os_path_join OUTPUT_FOLDER
                (output_filename (sanitize_role_model_name (Role_Model_Name entry)) n roll_number)
     \<and> d' = open_w_dump d
                (output_filename (sanitize_role_model_name (Role_Model_Name entry)) n roll_number)
                entry
     \<and> Source_Reference entry = file_name raw_filepath"
  using assms
  by (auto simp: create_json_entry_def Let_def ebind_Inr get_source_reference_def split: prod.splits)

lemma sanitize_filter:
  "sanitize_role_model_name name = filter (\<lambda>c. c \<noteq> CHR '' '' \<and> c \<noteq> CHR 0x27) name"
  by (auto simp: sanitize_role_model_name_def py_remove_def intro: filter_cong)

lemma first_number: "get_next_story_number [] name roll = Inr 1"
  by (simp add: get_next_story_number_counted os_listdir_def)

lemma map_of_open_w_dump: "map_of (open_w_dump d fname entry) = (map_of d)(fname \<mapsto> entry)"
  by (simp add: open_w_dump_def update_conv')

lemma listdir_open_w_dump:
  "fname \<in> set (os_listdir d) \<Longrightarrow> os_listdir (open_w_dump d fname entry) = os_listdir d"
  by (simp add: open_w_dump_def os_listdir_def update_keys)

text \<open>
  C7: the name sanitized for the file is the subject name without its spaces and
  apostrophes, every other character kept in place. The file that \<open>create_json_entry\<close>
  writes is named sanitized name, underscore, story number, underscore, roll number,
  \<open>.json\<close>, in \<open>OUTPUT_FOLDER\<close>, the story number being what \<open>get_next_story_number\<close> gave
  for the folder as it was. With an empty folder, the subject \<open>Jane Doe\<close> and the roll number
  \<open>42\<close> the number is 1 and the only file of the folder afterwards is
  \<open>JaneDoe_1_42.json\<close>.
\<close>

theorem output_file_name:
  "sanitize_role_model_name name = filter (\<lambda>c. c \<noteq> CHR '' '' \<and> c \<noteq> CHR 0x27) name
   \<and> (create_json_entry d raw_filepath roll c = Inr ((path, entry), d', c') \<longrightarrow>
        (\<exists>n. get_next_story_number d (Role_Model_Name entry) roll = Inr n
           \<and> path = os_path_join OUTPUT_FOLDER
                (sanitize_role_model_name (Role_Model_Name entry) @ ''_'' @ py_str n @ ''_''
                   @ roll @ ''.json'')
           \<and> d' = open_w_dump d
                (sanitize_role_model_name (Role_Model_Name entry) @ ''_'' @ py_str n @ ''_''
                   @ roll @ ''.json'') entry))
   \<and> (create_json_entry [] raw_filepath ''42'' c = Inr ((path, entry), d', c')
         \<and> Role_Model_Name entry = ''Jane Doe'' \<longrightarrow>
        get_next_story_number [] ''Jane Doe'' ''42'' = Inr 1
        \<and> path = ''Generated_JSON_Entries/JaneDoe_1_42.json''
        \<and> d' = [(''JaneDoe_1_42.json'', entry)])"
proof -
  have 1: "sanitize_role_model_name name = filter (\<lambda>c. c \<noteq> CHR '' '' \<and> c \<noteq> CHR 0x27) name"
    by (rule sanitize_filter)
  have 2: "\<exists>n. get_next_story_number d (Role_Model_Name entry) roll = Inr n
           \<and> path = os_path_join OUTPUT_FOLDER
                (sanitize_role_model_name (Role_Model_Name entry) @ ''_'' @ py_str n @ ''_''
                   @ roll @ ''.json'')
           \<and> d' = open_w_dump d
                (sanitize_role_model_name (Role_Model_Name entry) @ ''_'' @ py_str n @ ''_''
                   @ roll @ ''.json'') entry"
    if "create_json_entry d raw_filepath roll c = Inr ((path, entry), d', c')"
    using create_json_entry_Inr[OF that] by (auto simp: output_filename_def)
  have 3: "get_next_story_number [] ''Jane Doe'' ''42'' = Inr 1
        \<and> path = ''Generated_JSON_Entries/JaneDoe_1_42.json''
        \<and> d' = [(''JaneDoe_1_42.json'', entry)]"
    if a: "create_json_entry [] raw_filepath ''42'' c = Inr ((path, entry), d', c')
         \<and> Role_Model_Name entry = ''Jane Doe''"
  proof -
    have s: "sanitize_role_model_name ''Jane Doe'' = ''JaneDoe''"
      by code_simp
    have n: "py_str 1 = ''1''"
      by code_simp
    have f: "output_filename ''JaneDoe'' 1 ''42'' = ''JaneDoe_1_42.json''"
      by (simp add: output_filename_def n)
    have j: "os_path_join OUTPUT_FOLDER ''JaneDoe_1_42.json''
               = ''Generated_JSON_Entries/JaneDoe_1_42.json''"
      by code_simp
    from a create_json_entry_Inr[of "[]" raw_filepath "''42''" c path entry d' c']
    have "path = os_path_join OUTPUT_FOLDER ''JaneDoe_1_42.json''"
      "d' = open_w_dump [] ''JaneDoe_1_42.json'' entry"
      by (simp_all add: first_number s f)
    then show ?thesis
      by (simp add: first_number j open_w_dump_def)
  qed
  from 1 2 3 show ?thesis
    by blast
qed

theorem output_file_name_witness:
  "create_json_entry [] story_file ''42'' story_console
     = Inr ((''Generated_JSON_Entries/JaneDoe_1_42.json'', story_entry),
            [(''JaneDoe_1_42.json'', story_entry)], [''next''])
   \<and> Role_Model_Name story_entry = ''Jane Doe''
   \<and> get_next_story_number [] ''Jane Doe'' ''42'' = Inr 1"
proof -
  have run: "create_json_entry [] story_file ''42'' story_console
     = Inr ((''Generated_JSON_Entries/JaneDoe_1_42.json'', story_entry),
            [(''JaneDoe_1_42.json'', story_entry)], [''next''])"
    by code_simp
  have name: "Role_Model_Name story_entry = ''Jane Doe''"
    by (simp add: story_entry_def)
  show ?thesis
    using run name
      output_file_name[of _ "[]" story_file "''42''" story_console
        "''Generated_JSON_Entries/JaneDoe_1_42.json''" story_entry
        "[(''JaneDoe_1_42.json'', story_entry)]" "[''next'']"]
    by simp
qed

text \<open>
  C10: whenever \<open>create_json_entry\<close> returns, the folder afterwards maps the computed
  file name to the new entry and every other name to what it held before, whether or not
  a file of that name was there: an existing file keeps its place in the listing and
  loses its content. Nothing is read from the console for it and no exception comes of it.
\<close>

theorem save_replaces_existing_file:
  assumes "create_json_entry d raw_filepath roll c = Inr ((path, entry), d', c')"
  shows "\<exists>n. get_next_story_number d (Role_Model_Name entry) roll = Inr n
     \<and> (let fname = output_filename (sanitize_role_model_name (Role_Model_Name entry)) n roll
        in path = os_path_join OUTPUT_FOLDER fname
           \<and> map_of d' = (map_of d)(fname \<mapsto> entry)
           \<and> (fname \<in> set (os_listdir d) \<longrightarrow> os_listdir d' = os_listdir d))"
  using create_json_entry_Inr[OF assms]
  by (auto simp: Let_def map_of_open_w_dump listdir_open_w_dump)

theorem save_replaces_existing_file_witness:
  "create_json_entry [(''JaneDoe_1_21_CS_042.json'', story_entry)] story_file ''21_CS_042''
       second_console
     = Inr ((''Generated_JSON_Entries/JaneDoe_1_21_CS_042.json'', second_entry),
            [(''JaneDoe_1_21_CS_042.json'', second_entry)], [])
   \<and> output_filename (sanitize_role_model_name (Role_Model_Name second_entry)) 1 ''21_CS_042''
        = ''JaneDoe_1_21_CS_042.json''
   \<and> map_of [(''JaneDoe_1_21_CS_042.json'', story_entry)] ''JaneDoe_1_21_CS_042.json''
        = Some story_entry
   \<and> story_entry \<noteq> second_entry
   \<and> map_of [(''JaneDoe_1_21_CS_042.json'', second_entry)]
        = (map_of [(''JaneDoe_1_21_CS_042.json'', story_entry)])
             (''JaneDoe_1_21_CS_042.json'' \<mapsto> second_entry)"
proof -
  have run: "create_json_entry [(''JaneDoe_1_21_CS_042.json'', story_entry)] story_file
       ''21_CS_042'' second_console
     = Inr ((''Generated_JSON_Entries/JaneDoe_1_21_CS_042.json'', second_entry),
            [(''JaneDoe_1_21_CS_042.json'', second_entry)], [])"
    by code_simp
  have f: "output_filename (sanitize_role_model_name (Role_Model_Name second_entry)) 1 ''21_CS_042''
        = ''JaneDoe_1_21_CS_042.json''"
    by code_simp
  have ne: "story_entry \<noteq> second_entry"
    by (simp add: story_entry_def second_entry_def)
  from save_replaces_existing_file[OF run] f
  have "map_of [(''JaneDoe_1_21_CS_042.json'', second_entry)]
        = (map_of [(''JaneDoe_1_21_CS_042.json'', story_entry)])
             (''JaneDoe_1_21_CS_042.json'' \<mapsto> second_entry)"
    by (auto simp: Let_def)
  with run f ne show ?thesis
    by simp
qed

text \<open>
  C1, on the code: with the roll number \<open>21_CS_042\<close> the first record for \<open>Jane Doe\<close> in
  an empty folder gets the number 1 and is saved as \<open>JaneDoe_1_21_CS_042.json\<close>; on the
  folder that holds this record, \<open>get_next_story_number\<close> for the same subject and roll
  number gives 1 again, not 2.
\<close>

theorem second_record_reuses_number:
  "create_json_entry [] story_file ''21_CS_042'' story_console
     = Inr ((''Generated_JSON_Entries/JaneDoe_1_21_CS_042.json'', story_entry),
            [(''JaneDoe_1_21_CS_042.json'', story_entry)], [''next''])
   \<and> get_next_story_number [(''JaneDoe_1_21_CS_042.json'', story_entry)] ''Jane Doe'' ''21_CS_042''
       = Inr 1"
  by code_simp

section \<open>The coping strategies\<close>

lemma get_coping_strategies_step:
  "get_coping_strategies (l # c) =
     (if 5 \<le> length (py_strip l)
      then Inr (filter (\<lambda>s. s \<noteq> []) (map py_strip (py_split (CHR '','') (py_strip l))), c)
      else get_coping_strategies c)"
  by (cases c)
     (auto simp: get_coping_strategies_def ebind_def input_line_def split_strategies_def
        filter_map comp_def)

text \<open>
  C3, on the code: the answer \<open>,,,,,\<close> has five characters, so it passes the test of the
  loop, and each of its six items is empty, so the list returned is empty.
\<close>

theorem commas_only_gives_no_strategy:
  "get_coping_strategies ['',,,,,''] = Inr ([], [])"
  by code_simp

text \<open>
  What holds of C3 on the code: an answer of fewer than five characters after trimming is
  asked again; the accepted answer is cut at its commas, each item trimmed, the empty
  items dropped and the order kept. The answer of the scenario gives its three items.
\<close>

theorem coping_strategies_split_trim_drop:
  "get_coping_strategies (l # c) =
     (if 5 \<le> length (py_strip l)
      then Inr (filter (\<lambda>s. s \<noteq> []) (map py_strip (py_split (CHR '','') (py_strip l))), c)
      else get_coping_strategies c)
   \<and> get_coping_strategies [] = Inl EOFError
   \<and> get_coping_strategies [''therapy, meditation ,  journaling'']
        = Inr ([''therapy'', ''meditation'', ''journaling''], [])"
proof -
  have "get_coping_strategies [] = Inl EOFError"
    by (simp add: get_coping_strategies_def ebind_def input_line_def)
  moreover have "get_coping_strategies [''therapy, meditation ,  journaling'']
        = Inr ([''therapy'', ''meditation'', ''journaling''], [])"
    by code_simp
  ultimately show ?thesis
    using get_coping_strategies_step[of l c] by simp
qed

section \<open>Files of other keys\<close>

text \<open>
  C5, on the code: \<open>JaneDoe_3_42.5.json\<close> is the name under which the third record of the
  roll number \<open>42.5\<close> for \<open>Jane Doe\<close> is saved. A folder that holds only this file gives the
  roll number \<open>42\<close> the number 4 for \<open>Jane Doe\<close>, not the 1 of the empty folder: the file of
  the other roll number is counted.
\<close>

theorem other_roll_number_counted:
  "output_filename (sanitize_role_model_name ''Jane Doe'') 3 ''42.5'' = ''JaneDoe_3_42.5.json''
   \<and> get_next_story_number [] ''Jane Doe'' ''42'' = Inr 1
   \<and> get_next_story_number [(''JaneDoe_3_42.5.json'', story_entry)] ''Jane Doe'' ''42'' = Inr 4"
  by code_simp

text \<open>
  What holds of C5 on the code: \<open>get_next_story_number\<close> raises nothing, whatever the
  folder holds. A file is left out when its name does not end in \<open>.json\<close>, has fewer than
  three tokens between underscores, has a first token other than the sanitized name, has
  a third token whose text before the first dot is not the roll number, or has a second
  token that \<open>int\<close> refuses; leaving such a file out of the folder does not change the
  result.
\<close>

theorem get_next_story_number_never_raises:
  "(\<exists>n. get_next_story_number d role_model_name roll_number = Inr n)
   \<and> (scan_file (sanitize_role_model_name role_model_name) roll_number fname = Inr None \<longrightarrow>
        get_next_story_number (d @ (fname, entry) # d') role_model_name roll_number
          = get_next_story_number (d @ d') role_model_name roll_number)"
  by (simp add: get_next_story_number_counted scan_file_counted os_listdir_def
        List.map_filter_def)

theorem get_next_story_number_never_raises_witness:
  "scan_file (sanitize_role_model_name ''Jane Doe'') ''42'' ''notes_about_jane.json'' = Inr None
   \<and> get_next_story_number
         [(''JaneDoe_2_42.json'', story_entry), (''notes_about_jane.json'', second_entry)]
         ''Jane Doe'' ''42'' = Inr 3"
proof -
  have a: "scan_file (sanitize_role_model_name ''Jane Doe'') ''42'' ''notes_about_jane.json''
             = Inr None"
    by code_simp
  have b: "get_next_story_number [(''JaneDoe_2_42.json'', story_entry)] ''Jane Doe'' ''42'' = Inr 3"
    by code_simp
  show ?thesis
    using a b
      get_next_story_number_never_raises[of "[(''JaneDoe_2_42.json'', story_entry)]"
        "''Jane Doe''" "''42''" "''notes_about_jane.json''" second_entry "[]"]
    by simp
qed

section \<open>The selection of themes\<close>

lemma length_MENTAL_HEALTH_THEMES: "length MENTAL_HEALTH_THEMES = 10"
  by (simp add: MENTAL_HEALTH_THEMES_def)

lemma choice_indices_char:
  "choice_indices ts =
     (if \<forall>t\<in>set ts. py_int (py_strip t) \<noteq> None
      then Inr (map (\<lambda>t. the (py_int (py_strip t)) - 1) ts)
      else Inl ValueError)"
  by (induction ts) (auto simp: ebind_def split: option.splits)

lemma themes_at_char:
  "\<forall>n\<in>set ns. 0 \<le> n \<and> n < 10 \<Longrightarrow>
     themes_at ns = Inr (map (\<lambda>n. MENTAL_HEALTH_THEMES ! nat n) ns)"
  by (induction ns)
     (simp_all add: ebind_def py_index_int_def length_MENTAL_HEALTH_THEMES)

definition line_accepted :: "string \<Rightarrow> bool" where
  "line_accepted l =
     (let ts = py_split (CHR '','') l
      in 2 \<le> length ts \<and> length ts \<le> 4
         \<and> (\<forall>t\<in>set ts. \<exists>n. py_int (py_strip t) = Some n \<and> 1 \<le> n \<and> n \<le> 10))"

definition line_themes :: "string \<Rightarrow> string list" where
  "line_themes l =
     map (\<lambda>t. MENTAL_HEALTH_THEMES ! nat (the (py_int (py_strip t)) - 1)) (py_split (CHR '','') l)"

lemma themes_round_char:
  "themes_round selected l = Inr (if line_accepted l then line_themes l else selected)"
proof (cases "\<forall>t\<in>set (py_split (CHR '','') l). py_int (py_strip t) \<noteq> None")
  case False
  then have "choice_indices (py_split (CHR '','') l) = Inl ValueError"
    by (simp add: choice_indices_char)
  moreover have "\<not> line_accepted l"
  proof
    assume "line_accepted l"
    then have "\<forall>t\<in>set (py_split (CHR '','') l). \<exists>n. py_int (py_strip t) = Some n"
      unfolding line_accepted_def Let_def by blast
    with False show False
      by force
  qed
  ultimately show ?thesis
    by (simp add: themes_round_def try_choices_def ebind_def)
next
  case True
  define ns where "ns = map (\<lambda>t. the (py_int (py_strip t)) - 1) (py_split (CHR '','') l)"
  have ci: "choice_indices (py_split (CHR '','') l) = Inr ns"
    using True by (simp add: choice_indices_char ns_def)
  have range: "list_all (\<lambda>c. 0 \<le> c \<and> c < int (length MENTAL_HEALTH_THEMES)) ns
      \<longleftrightarrow> (\<forall>t\<in>set (py_split (CHR '','') l). \<exists>n. py_int (py_strip t) = Some n \<and> 1 \<le> n \<and> n \<le> 10)"
    using True by (fastforce simp: ns_def list_all_iff length_MENTAL_HEALTH_THEMES)
  show ?thesis
  proof (cases "line_accepted l")
    case acc: True
    then have r: "list_all (\<lambda>c. 0 \<le> c \<and> c < int (length MENTAL_HEALTH_THEMES)) ns"
      and len: "2 \<le> length ns" "length ns \<le> 4"
      using range by (simp_all add: line_accepted_def Let_def ns_def)
    from r have "themes_at ns = Inr (map (\<lambda>n. MENTAL_HEALTH_THEMES ! nat n) ns)"
      by (intro themes_at_char) (simp add: list_all_iff length_MENTAL_HEALTH_THEMES)
    then have "themes_at ns = Inr (line_themes l)"
      by (simp add: ns_def line_themes_def comp_def)
    with ci r len acc show ?thesis
      by (simp add: themes_round_def try_choices_def ebind_def)
  next
    case rej: False
    then have "\<not> (list_all (\<lambda>c. 0 \<le> c \<and> c < int (length MENTAL_HEALTH_THEMES)) ns
        \<and> 2 \<le> length ns \<and> length ns \<le> 4)"
      using range by (auto simp: line_accepted_def Let_def ns_def)
    with ci rej show ?thesis
      by (auto simp: themes_round_def try_choices_def ebind_def)
  qed
qed

lemma line_themes_length:
  "line_accepted l \<Longrightarrow> 2 \<le> length (line_themes l) \<and> length (line_themes l) \<le> 4"
  by (simp add: line_accepted_def line_themes_def Let_def)

lemma line_themes_vocabulary:
  assumes "line_accepted l"
  shows "set (line_themes l) \<subseteq> set MENTAL_HEALTH_THEMES"
proof
  fix x assume "x \<in> set (line_themes l)"
  then obtain t where t: "t \<in> set (py_split (CHR '','') l)"
    and x: "x = MENTAL_HEALTH_THEMES ! nat (the (py_int (py_strip t)) - 1)"
    by (auto simp: line_themes_def)
  from assms t obtain n where "py_int (py_strip t) = Some n" "1 \<le> n" "n \<le> 10"
    by (auto simp: line_accepted_def Let_def)
  then have "nat (the (py_int (py_strip t)) - 1) < length MENTAL_HEALTH_THEMES"
    by (simp add: length_MENTAL_HEALTH_THEMES)
  then show "x \<in> set MENTAL_HEALTH_THEMES"
    unfolding x by (rule nth_mem)
qed

lemma select_step:
  "select_mental_health_themes (l # c) =
     (if line_accepted l then Inr (line_themes l, c) else select_mental_health_themes c)"
  using line_themes_length[of l]
  by (cases c) (auto simp: select_mental_health_themes_def themes_round_char ebind_def)

lemma select_nil: "select_mental_health_themes [] = Inl EOFError"
  by (simp add: select_mental_health_themes_def)

lemma select_result:
  "select_mental_health_themes c = Inr (sel, c') \<Longrightarrow>
     \<exists>l\<in>set c. line_accepted l \<and> sel = line_themes l"
  by (induction c) (auto simp: select_nil select_step split: if_splits)

text \<open>
  What the loop does with one answer: the answer is accepted when it has two to four
  entries between commas and each entry, trimmed, is read by \<open>int\<close> as a number from 1 to
  10; the selection is then the themes at these positions, in the order of the entries.
  Any other answer is asked again: one with an entry that is no number, one with a number
  outside the vocabulary, one with fewer than two or more than four entries. Every
  selection returned has two to four themes of the vocabulary.
\<close>

theorem theme_selection_by_entries:
  "select_mental_health_themes (l # c) =
     (if 2 \<le> length (py_split (CHR '','') l) \<and> length (py_split (CHR '','') l) \<le> 4
         \<and> (\<forall>t\<in>set (py_split (CHR '','') l).
               \<exists>n. py_int (py_strip t) = Some n \<and> 1 \<le> n \<and> n \<le> 10)
      then Inr (map (\<lambda>t. MENTAL_HEALTH_THEMES ! nat (the (py_int (py_strip t)) - 1))
                  (py_split (CHR '','') l), c)
      else select_mental_health_themes c)
   \<and> select_mental_health_themes [] = Inl EOFError
   \<and> (select_mental_health_themes c = Inr (sel, c') \<longrightarrow>
        2 \<le> length sel \<and> length sel \<le> 4 \<and> set sel \<subseteq> set MENTAL_HEALTH_THEMES)"
proof -
  have step: "select_mental_health_themes (l # c) =
     (if 2 \<le> length (py_split (CHR '','') l) \<and> length (py_split (CHR '','') l) \<le> 4
         \<and> (\<forall>t\<in>set (py_split (CHR '','') l).
               \<exists>n. py_int (py_strip t) = Some n \<and> 1 \<le> n \<and> n \<le> 10)
      then Inr (map (\<lambda>t. MENTAL_HEALTH_THEMES ! nat (the (py_int (py_strip t)) - 1))
                  (py_split (CHR '','') l), c)
      else select_mental_health_themes c)"
    using select_step[of l c] unfolding line_accepted_def line_themes_def Let_def .
  have result: "select_mental_health_themes c = Inr (sel, c') \<longrightarrow>
      2 \<le> length sel \<and> length sel \<le> 4 \<and> set sel \<subseteq> set MENTAL_HEALTH_THEMES"
    using select_result[of c sel c'] line_themes_length line_themes_vocabulary by blast
  show ?thesis
    by (rule conjI[OF step conjI[OF select_nil result]])
qed

theorem theme_selection_by_entries_witness:
  "select_mental_health_themes [''7'', ''1,11'', ''x,2'', ''1,2,3,4,5'', ''1,3,5'', ''rest'']
     = Inr ([''anxiety'', ''stress_management'', ''grief''], [''rest''])
   \<and> 2 \<le> length [''anxiety'', ''stress_management'', ''grief'']
   \<and> length [''anxiety'', ''stress_management'', ''grief''] \<le> 4
   \<and> set [''anxiety'', ''stress_management'', ''grief''] \<subseteq> set MENTAL_HEALTH_THEMES"
proof -
  have run: "select_mental_health_themes
       [''7'', ''1,11'', ''x,2'', ''1,2,3,4,5'', ''1,3,5'', ''rest'']
     = Inr ([''anxiety'', ''stress_management'', ''grief''], [''rest''])"
    by code_simp
  show ?thesis
    using run
      theme_selection_by_entries[of _ "[''7'', ''1,11'', ''x,2'', ''1,2,3,4,5'', ''1,3,5'', ''rest'']"
        "[''anxiety'', ''stress_management'', ''grief'']" "[''rest'']"]
    by blast
qed

text \<open>
  C2, on the code: the answer \<open>1,1\<close> names one theme, fewer than the two that the
  function asks for, and it is accepted all the same: the test of the count is on the
  number of entries, which is two. The selection returned holds \<open>anxiety\<close> twice.
\<close>

theorem repeated_index_accepted:
  "select_mental_health_themes [''1,1''] = Inr ([''anxiety'', ''anxiety''], [])
   \<and> \<not> distinct [''anxiety'', ''anxiety'']
   \<and> length (remdups [''anxiety'', ''anxiety'']) = 1"
proof -
  have run: "select_mental_health_themes [''1,1''] = Inr ([''anxiety'', ''anxiety''], [])"
    by code_simp
  have twice: "\<not> distinct [''anxiety'', ''anxiety'']"
    by simp
  have one: "length (remdups [''anxiety'', ''anxiety'']) = 1"
    by simp
  show ?thesis
    by (rule conjI[OF run conjI[OF twice one]])
qed

section \<open>The name in the header of the raw file\<close>

lemma py_lower_char_colon: "py_lower_char c = CHR '':'' \<longleftrightarrow> c = CHR '':''"
proof
  assume "c = CHR '':''"
  then show "py_lower_char c = CHR '':''"
    by (simp add: py_lower_char_def)
next
  assume a: "py_lower_char c = CHR '':''"
  show "c = CHR '':''"
  proof (rule ccontr)
    assume n: "c \<noteq> CHR '':''"
    with a have up: "(65 \<le> (of_char c :: nat) \<and> (of_char c :: nat) \<le> 90)
        \<or> (192 \<le> (of_char c :: nat) \<and> (of_char c :: nat) \<le> 222 \<and> (of_char c :: nat) \<noteq> 215)"
      and "char_of ((of_char c :: nat) + 32) = CHR '':''"
      by (auto simp: py_lower_char_def Let_def split: if_splits)
    then have "((of_char c :: nat) + 32) mod 256 = 58"
      by (simp add: char_of_eq_iff take_bit_eq_mod)
    with up show False
      by (auto simp: mod_if split: if_splits)
  qed
qed

lemma label_split:
  assumes "py_startswith (py_lower line) ''role model:''"
  shows "py_split1 (CHR '':'') line = [take 10 line, drop 11 line]"
proof -
  let ?P = "\<lambda>c. c \<noteq> CHR '':''"
  have l11: "length ''role model:'' = 11"
    by simp
  have t: "take 11 (map py_lower_char line) = ''role model:''"
    using assms unfolding py_startswith_def py_lower_def l11 .
  have m: "map py_lower_char line = ''role model:'' @ drop 11 (map py_lower_char line)"
    by (metis append_take_drop_id t)
  have "map py_lower_char (takeWhile ?P line) = takeWhile ?P (map py_lower_char line)"
    by (simp add: takeWhile_map comp_def py_lower_char_colon)
  also have "\<dots> = ''role model''"
    by (subst m) simp
  finally have e: "map py_lower_char (takeWhile ?P line) = ''role model''" .
  have "length (map py_lower_char (takeWhile ?P line)) = length ''role model''"
    by (simp only: e)
  then have len: "length (takeWhile ?P line) = 10"
    by simp
  have tw: "takeWhile ?P line = take 10 line"
    using len takeWhile_eq_take[of ?P line] by simp
  have dw: "dropWhile ?P line = drop 10 line"
    using len dropWhile_eq_drop[of ?P line] by simp
  have "length (map py_lower_char line) = length (''role model:'' @ drop 11 (map py_lower_char line))"
    by (simp only: m[symmetric])
  then have long: "10 < length line"
    by simp
  have "\<not> ?P (line ! length (takeWhile ?P line))"
    using long len by (intro nth_length_takeWhile) simp
  then have "line ! 10 = CHR '':''"
    by (simp add: len)
  then have "CHR '':'' \<in> set line"
    using long nth_mem by metis
  moreover have "tl (drop 10 line) = drop 11 line"
  proof -
    have "drop 11 line = drop (Suc 10) line"
      by simp
    also have "\<dots> = tl (drop 10 line)"
      by (simp only: drop_Suc tl_drop)
    finally show ?thesis ..
  qed
  ultimately show ?thesis
    by (simp only: py_split1_def tw dw if_True)
qed

lemma infer_from_lines_find:
  "infer_from_lines ls =
     (case List.find (\<lambda>line. py_startswith (py_lower line) ''role model:'') ls of
        None \<Rightarrow> Inr None
      | Some line \<Rightarrow> Inr (Some (py_strip (drop 11 line))))"
  by (induction ls) (simp_all add: label_split py_index_def ebind_def)

lemma find_after_unlabelled:
  "\<forall>x\<in>set before. \<not> P x \<Longrightarrow> P y \<Longrightarrow> List.find P (before @ y # after) = Some y"
  by (induction before) simp_all

text \<open>
  C6: for every text, the result is decided by the first line (as \<open>splitlines\<close> cuts the
  text) that starts with \<open>role model:\<close> in any mix of cases: it is the text after the colon
  of the label, trimmed. When no line starts so, the result is \<open>None\<close>. No exception is
  raised. In particular the line \<open>Role Model: Jane Doe\<close>, wherever it stands in the text as
  the first line with the label, gives exactly \<open>Jane Doe\<close>.
\<close>

theorem inferred_name_of_first_label:
  "infer_role_model_name_from_raw raw_content =
     (case List.find (\<lambda>line. py_startswith (py_lower line) ''role model:'')
             (py_splitlines raw_content) of
        None \<Rightarrow> Inr None
      | Some line \<Rightarrow> Inr (Some (py_strip (drop 11 line))))
   \<and> (py_splitlines raw_content = before @ ''Role Model: Jane Doe'' # after
        \<and> (\<forall>line\<in>set before. \<not> py_startswith (py_lower line) ''role model:'')
      \<longrightarrow> infer_role_model_name_from_raw raw_content = Inr (Some ''Jane Doe''))"
proof -
  have general: "infer_role_model_name_from_raw raw_content =
     (case List.find (\<lambda>line. py_startswith (py_lower line) ''role model:'')
             (py_splitlines raw_content) of
        None \<Rightarrow> Inr None
      | Some line \<Rightarrow> Inr (Some (py_strip (drop 11 line))))"
    by (simp only: infer_role_model_name_from_raw_def infer_from_lines_find)
  have label: "py_startswith (py_lower ''Role Model: Jane Doe'') ''role model:''"
    by code_simp
  have name: "py_strip (drop 11 ''Role Model: Jane Doe'') = ''Jane Doe''"
    by code_simp
  have scenario: "infer_role_model_name_from_raw raw_content = Inr (Some ''Jane Doe'')"
    if "py_splitlines raw_content = before @ ''Role Model: Jane Doe'' # after
        \<and> (\<forall>line\<in>set before. \<not> py_startswith (py_lower line) ''role model:'')"
  proof -
    have lines: "py_splitlines raw_content = before @ ''Role Model: Jane Doe'' # after"
      using that by (rule conjunct1)
    have unlabelled: "\<forall>line\<in>set before. \<not> py_startswith (py_lower line) ''role model:''"
      using that by (rule conjunct2)
    have "List.find (\<lambda>line. py_startswith (py_lower line) ''role model:'')
            (py_splitlines raw_content) = Some ''Role Model: Jane Doe''"
      unfolding lines
      by (rule find_after_unlabelled[of before
            "\<lambda>line. py_startswith (py_lower line) ''role model:''" "''Role Model: Jane Doe''"
            after, OF unlabelled label])
    then show ?thesis
      by (simp only: general option.case name)
  qed
  show ?thesis
    by (rule conjI[OF general impI[OF scenario]])
qed

theorem inferred_name_of_first_label_witness:
  "py_splitlines (file_content story_file)
     = [''Source: magazine''] @ ''Role Model: Jane Doe'' # [''She said: I had to stop. And she did.'']
   \<and> \<not> py_startswith (py_lower ''Source: magazine'') ''role model:''
   \<and> infer_role_model_name_from_raw (file_content story_file) = Inr (Some ''Jane Doe'')"
proof -
  have lines: "py_splitlines (file_content story_file)
     = [''Source: magazine''] @ ''Role Model: Jane Doe'' # [''She said: I had to stop. And she did.'']"
    by code_simp
  have source: "\<not> py_startswith (py_lower ''Source: magazine'') ''role model:''"
    by code_simp
  then have before: "\<forall>line\<in>set [''Source: magazine'']. \<not> py_startswith (py_lower line) ''role model:''"
    by simp
  have name: "infer_role_model_name_from_raw (file_content story_file) = Inr (Some ''Jane Doe'')"
    by (rule inferred_name_of_first_label[of "file_content story_file" "[''Source: magazine'']"
          "[''She said: I had to stop. And she did.'']", THEN conjunct2, THEN mp,
          OF conjI[OF lines before]])
  show ?thesis
    by (rule conjI[OF lines conjI[OF source name]])
qed

section \<open>The quote\<close>

lemma py_in_iff: "py_in q s \<longleftrightarrow> (\<exists>before after. s = before @ q @ after)"
proof (induction s)
  case Nil
  then show ?case by simp
next
  case (Cons c cs)
  have "py_startswith (c # cs) q \<longleftrightarrow> (\<exists>after. c # cs = q @ after)"
    unfolding py_startswith_def
    by (metis append_eq_conv_conj)
  moreover have "(\<exists>before after. c # cs = before @ q @ after)
      \<longleftrightarrow> (\<exists>after. c # cs = q @ after) \<or> (\<exists>before after. cs = before @ q @ after)"
  proof
    assume "\<exists>before after. c # cs = before @ q @ after"
    then obtain before after where e: "c # cs = before @ q @ after"
      by blast
    show "(\<exists>after. c # cs = q @ after) \<or> (\<exists>before after. cs = before @ q @ after)"
    proof (cases before)
      case Nil
      with e show ?thesis by auto
    next
      case (Cons b bs)
      with e have "cs = bs @ q @ after" by simp
      then show ?thesis by blast
    qed
  next
    assume "(\<exists>after. c # cs = q @ after) \<or> (\<exists>before after. cs = before @ q @ after)"
    then show "\<exists>before after. c # cs = before @ q @ after"
    proof
      assume "\<exists>after. c # cs = q @ after"
      then obtain after where "c # cs = [] @ q @ after" by auto
      then show ?thesis by blast
    next
      assume "\<exists>before after. cs = before @ q @ after"
      then obtain before after where "c # cs = (c # before) @ q @ after" by auto
      then show ?thesis by blast
    qed
  qed
  ultimately show ?case
    using Cons.IH by simp
qed

lemma quote_nil: "get_quote_from_text raw_content [] = Inl EOFError"
  by (simp add: get_quote_from_text.simps ebind_def input_line_def)

lemma quote_unfold_cons:
  "get_quote_from_text raw_content (l # c) =
     ebind (while_too_short 10 (py_strip l) c) (\<lambda>(quote, c2).
       if \<not> py_in (py_lower quote) (py_lower raw_content)
       then ebind (input_line c2) (\<lambda>(answer, c3).
              if py_lower answer \<noteq> ''y'' then get_quote_from_text raw_content c3
              else Inr (quote, c3))
       else Inr (quote, c2))"
  by (subst get_quote_from_text.simps, unfold Let_def) (simp add: ebind_def input_line_def)

lemma quote_short:
  "length (py_strip l) < 10 \<Longrightarrow>
     get_quote_from_text raw_content (l # c) = get_quote_from_text raw_content c"
  by (cases c) (simp_all add: quote_unfold_cons quote_nil ebind_def)

lemma quote_found:
  "10 \<le> length (py_strip l) \<Longrightarrow> py_in (py_lower (py_strip l)) (py_lower raw_content) \<Longrightarrow>
     get_quote_from_text raw_content (l # c) = Inr (py_strip l, c)"
  by (cases c) (auto simp: quote_unfold_cons ebind_def)

lemma quote_not_found_eof:
  "10 \<le> length (py_strip l) \<Longrightarrow> \<not> py_in (py_lower (py_strip l)) (py_lower raw_content) \<Longrightarrow>
     get_quote_from_text raw_content [l] = Inl EOFError"
  by (auto simp: quote_unfold_cons ebind_def input_line_def)

lemma quote_not_found:
  "10 \<le> length (py_strip l) \<Longrightarrow> \<not> py_in (py_lower (py_strip l)) (py_lower raw_content) \<Longrightarrow>
     get_quote_from_text raw_content (l # answer # c) =
       (if py_lower answer = ''y'' then Inr (py_strip l, c)
        else get_quote_from_text raw_content c)"
  by (subst quote_unfold_cons) (auto simp: ebind_def input_line_def)

lemma quote_result:
  "get_quote_from_text raw_content c = Inr (q, c') \<Longrightarrow>
     10 \<le> length q \<and> py_strip q = q
     \<and> ((\<exists>before l. c = before @ l # c' \<and> q = py_strip l
              \<and> py_in (py_lower q) (py_lower raw_content))
        \<or> (\<exists>before l answer. c = before @ l # answer # c' \<and> q = py_strip l
              \<and> py_lower answer = ''y''))"
proof (induction c rule: induct_list012)
  case 1
  then show ?case by (simp add: quote_nil)
next
  case (2 l)
  show ?case
  proof (cases "length (py_strip l) < 10")
    case True
    with 2 show ?thesis by (simp add: quote_short quote_nil)
  next
    case False
    show ?thesis
    proof (cases "py_in (py_lower (py_strip l)) (py_lower raw_content)")
      case True
      with False 2 have "q = py_strip l" "c' = []"
        by (simp_all add: quote_found)
      with False True show ?thesis
        by (auto simp: py_strip_idem)
    next
      case nf: False
      with False 2 show ?thesis by (simp add: quote_not_found_eof)
    qed
  qed
next
  case (3 l answer c)
  show ?case
  proof (cases "length (py_strip l) < 10")
    case True
    with 3 have "get_quote_from_text raw_content (answer # c) = Inr (q, c')"
      by (simp add: quote_short)
    from "3.IH"(2)[OF this] show ?thesis
      by (elim conjE disjE exE) (auto intro: exI[of _ "l # _"] simp: Cons_eq_append_conv)
  next
    case False
    show ?thesis
    proof (cases "py_in (py_lower (py_strip l)) (py_lower raw_content)")
      case True
      with False 3 have "q = py_strip l" "c' = answer # c"
        by (simp_all add: quote_found)
      with False True show ?thesis
        by (auto simp: py_strip_idem)
    next
      case nf: False
      show ?thesis
      proof (cases "py_lower answer = ''y''")
        case True
        with False nf 3 have "q = py_strip l" "c' = c"
          by (simp_all add: quote_not_found)
        with False True show ?thesis
          by (auto simp: py_strip_idem)
      next
        case no: False
        with False nf 3 have "get_quote_from_text raw_content c = Inr (q, c')"
          by (simp add: quote_not_found)
        from "3.IH"(1)[OF this] show ?thesis
          by (elim conjE disjE exE) (auto intro: exI[of _ "l # answer # _"] simp: Cons_eq_append_conv)
      qed
    qed
  qed
qed

lemma quote_error:
  "get_quote_from_text raw_content c = Inl e \<Longrightarrow> e = EOFError"
proof (induction c rule: induct_list012)
  case 1
  then show ?case by (simp add: quote_nil)
next
  case (2 l)
  then show ?case
    by (cases "length (py_strip l) < 10";
        cases "py_in (py_lower (py_strip l)) (py_lower raw_content)")
       (simp_all add: quote_short quote_nil quote_found quote_not_found_eof)
next
  case (3 l answer c)
  then show ?case
    by (cases "length (py_strip l) < 10";
        cases "py_in (py_lower (py_strip l)) (py_lower raw_content)")
       (simp_all add: quote_short quote_found quote_not_found split: if_splits)
qed

definition quote_console :: console where
  "quote_console =
     [''too short'', ''it was not said'', ''n'', ''She never said this'', ''Y'', ''next'']"

text \<open>
  C4: a quote that \<open>get_quote_from_text\<close> returns is a trimmed answer of at least ten
  characters, and either its lower-case form occurs in the lower-case form of the raw text
  or the line typed after it, put in lower case, is \<open>y\<close>. When a quote of at least ten
  characters is not in the text, the next line decides: \<open>y\<close> or \<open>Y\<close> returns the quote as it
  is, anything else starts the prompt again on the rest of the console. The only
  exception that can leave the function is the end of the input.
\<close>

theorem quote_found_or_confirmed:
  "(get_quote_from_text raw_content c = Inr (q, c') \<longrightarrow>
      10 \<le> length (py_strip q)
      \<and> ((\<exists>before after. py_lower raw_content = before @ py_lower q @ after)
         \<or> (\<exists>before l answer. c = before @ l # answer # c' \<and> q = py_strip l
               \<and> py_lower answer = ''y'')))
   \<and> (10 \<le> length (py_strip line)
        \<and> \<not> (\<exists>before after. py_lower raw_content = before @ py_lower (py_strip line) @ after)
      \<longrightarrow> get_quote_from_text raw_content (line # reply # rest) =
            (if py_lower reply = ''y'' then Inr (py_strip line, rest)
             else get_quote_from_text raw_content rest))
   \<and> (get_quote_from_text raw_content c0 = Inl e \<longrightarrow> e = EOFError)"
proof -
  have returned: "get_quote_from_text raw_content c = Inr (q, c') \<longrightarrow>
      10 \<le> length (py_strip q)
      \<and> ((\<exists>before after. py_lower raw_content = before @ py_lower q @ after)
         \<or> (\<exists>before l answer. c = before @ l # answer # c' \<and> q = py_strip l
               \<and> py_lower answer = ''y''))"
  proof
    assume "get_quote_from_text raw_content c = Inr (q, c')"
    from quote_result[OF this] show "10 \<le> length (py_strip q)
      \<and> ((\<exists>before after. py_lower raw_content = before @ py_lower q @ after)
         \<or> (\<exists>before l answer. c = before @ l # answer # c' \<and> q = py_strip l
               \<and> py_lower answer = ''y''))"
      unfolding py_in_iff by auto
  qed
  have override: "10 \<le> length (py_strip line)
        \<and> \<not> (\<exists>before after. py_lower raw_content = before @ py_lower (py_strip line) @ after)
      \<longrightarrow> get_quote_from_text raw_content (line # reply # rest) =
            (if py_lower reply = ''y'' then Inr (py_strip line, rest)
             else get_quote_from_text raw_content rest)"
    using quote_not_found[of line raw_content reply rest] unfolding py_in_iff by simp
  have errors: "get_quote_from_text raw_content c0 = Inl e \<longrightarrow> e = EOFError"
    using quote_error[of raw_content c0 e] by (rule impI)
  show ?thesis
    by (rule conjI[OF returned conjI[OF override errors]])
qed

theorem quote_found_or_confirmed_witness:
  "get_quote_from_text (file_content story_file) quote_console
     = Inr (''She never said this'', [''next''])
   \<and> 10 \<le> length (py_strip ''She never said this'')
   \<and> \<not> py_in (py_lower (py_strip ''She never said this'')) (py_lower (file_content story_file))
   \<and> get_quote_from_text (file_content story_file) [''She never said this'', ''Y'', ''next'']
       = Inr (''She never said this'', [''next''])
   \<and> get_quote_from_text (file_content story_file) [''it was not said''] = Inl EOFError
   \<and> get_quote_from_text (file_content story_file) [''  i had to STOP.  '', ''next'']
       = Inr (''i had to STOP.'', [''next''])"
proof -
  note th = quote_found_or_confirmed[of "file_content story_file" quote_console
      "''She never said this''" "[''next'']" "''She never said this''" "''Y''" "[''next'']"
      "[''it was not said'']" EOFError]
  have run: "get_quote_from_text (file_content story_file) quote_console
     = Inr (''She never said this'', [''next''])"
    by code_simp
  have long: "10 \<le> length (py_strip ''She never said this'')"
    using th[THEN conjunct1, THEN mp, OF run] by (rule conjunct1)
  have absent: "\<not> py_in (py_lower (py_strip ''She never said this''))
      (py_lower (file_content story_file))"
    by code_simp
  then have absent': "\<not> (\<exists>before after. py_lower (file_content story_file)
      = before @ py_lower (py_strip ''She never said this'') @ after)"
    unfolding py_in_iff .
  have yes: "py_lower ''Y'' = ''y''"
    by code_simp
  have stripped: "py_strip ''She never said this'' = ''She never said this''"
    by code_simp
  have "get_quote_from_text (file_content story_file) [''She never said this'', ''Y'', ''next'']
       = (if py_lower ''Y'' = ''y'' then Inr (py_strip ''She never said this'', [''next''])
          else get_quote_from_text (file_content story_file) [''next''])"
    by (rule th[THEN conjunct2, THEN conjunct1, THEN mp, OF conjI[OF long absent']])
  then have confirmed: "get_quote_from_text (file_content story_file)
       [''She never said this'', ''Y'', ''next''] = Inr (''She never said this'', [''next''])"
    by (simp only: yes stripped simp_thms if_True)
  have eof: "get_quote_from_text (file_content story_file) [''it was not said''] = Inl EOFError"
    by code_simp
  have found: "get_quote_from_text (file_content story_file) [''  i had to STOP.  '', ''next'']
       = Inr (''i had to STOP.'', [''next''])"
    by code_simp
  show ?thesis
    by (rule conjI[OF run conjI[OF long conjI[OF absent conjI[OF confirmed conjI[OF eof found]]]]])
qed

end
